theory Spec2Isabelle
  imports Complex_Main "HOL-Library.AList" "HOL-Library.Log_Nat"
begin

section \<open>The area preview of the map editor\<close>

text \<open>
  A shallow embedding of the class \<open>AreaPreview\<close>: a rectangle drawn on the canvas for
  one area of the map, with eight small squares on its corners and edge midpoints that
  resize it when dragged.

  A method or an event handler takes the object's state and returns the new state
  together with the list of what it did to the outside: the events it emitted, the
  calls of \<open>markDirty\<close> and the error it threw.
\<close>

subsection \<open>Numbers\<close>

text \<open>
  A JavaScript \<open>number\<close> is an IEEE 754 double. The finite doubles are rationals, and
  each arithmetic operation of the code returns the exact result rounded to the nearest
  double, to the one with the even significand when two are equally near. A double has
  a significand of 53 bits: around \<open>x\<close> the doubles are \<open>ulp x\<close> apart, which is 2 to
  the power \<open>e - 52\<close> when \<open>\<bar>x\<bar>\<close> lies between 2 to the power \<open>e\<close> and 2 to the
  power \<open>e + 1\<close>, and never less than 2 to the power \<open>- 1074\<close>.

  Only finite results are modelled: a result beyond the largest double (an infinity), a
  division by zero and \<open>NaN\<close> are not, nor is the sign of zero. The caller gives
  areas of positive width and height, and the rectangle divides by nothing else.
\<close>

definition pow2 :: "int \<Rightarrow> rat" where
  "pow2 e = (if 0 \<le> e then 2 ^ nat e else 1 / 2 ^ nat (- e))"

text \<open>
  The exponent of \<open>x\<close> other than 0: the greatest \<open>e\<close> with \<open>pow2 e \<le> \<bar>x\<bar>\<close>.
\<close>

definition exponent :: "rat \<Rightarrow> int" where
  "exponent x =
     (if 1 \<le> \<bar>x\<bar> then bitlen \<lfloor>\<bar>x\<bar>\<rfloor> - 1
      else - bitlen (\<lceil>1 / \<bar>x\<bar>\<rceil> - 1))"

definition ulp :: "rat \<Rightarrow> rat" where
  "ulp x = pow2 (max (exponent x) (- 1022) - 52)"

text \<open>The nearest integer, the even one of the two when they are equally near.\<close>

definition roundEven :: "rat \<Rightarrow> int" where
  "roundEven m =
     (let n = \<lfloor>m\<rfloor>; f = m - of_int n
      in if f < 1 / 2 then n else if 1 / 2 < f then n + 1 else if even n then n else n + 1)"

definition rd :: "rat \<Rightarrow> rat" where
  "rd x = (if x = 0 then 0 else of_int (roundEven (x / ulp x)) * ulp x)"

text \<open>The operations \<open>+\<close>, \<open>-\<close>, \<open>*\<close> and \<open>/\<close> of the code.\<close>

definition fadd :: "rat \<Rightarrow> rat \<Rightarrow> rat" where "fadd a b = rd (a + b)"
definition fsub :: "rat \<Rightarrow> rat \<Rightarrow> rat" where "fsub a b = rd (a - b)"
definition fmul :: "rat \<Rightarrow> rat \<Rightarrow> rat" where "fmul a b = rd (a * b)"
definition fdiv :: "rat \<Rightarrow> rat \<Rightarrow> rat" where "fdiv a b = rd (a / b)"

text \<open>The rationals that are finite doubles.\<close>

definition isDouble :: "rat \<Rightarrow> bool" where
  "isDouble x = (rd x = x \<and> \<bar>x\<bar> < pow2 1024)"

subsection \<open>Area data\<close>

text \<open>
  The value of a property: a primitive (kept as its text) or a nested object, whose
  entries are kept in insertion order. Arrays are not modelled.
\<close>

datatype jsvalue = Prim string | Obj "(string \<times> jsvalue) list"

type_synonym AreaDataProperties = "(string \<times> jsvalue) list"

text \<open>
  Modelled from the spec: the type \<open>AreaData\<close> is declared in the package
  \<open>@workadventure/map-editor\<close>; the fields are those the spec lists for an Area.
\<close>

record AreaData =
  area_id :: string
  area_name :: string
  area_x :: rat
  area_y :: rat
  area_width :: rat
  area_height :: rat
  area_properties :: AreaDataProperties

text \<open>\<open>AtLeast<AreaData, "id">\<close>: the identifier, and any of the other fields.\<close>

record AreaDataAtLeastId =
  d_id :: string
  d_name :: "string option"
  d_x :: "rat option"
  d_y :: "rat option"
  d_width :: "rat option"
  d_height :: "rat option"
  d_properties :: "AreaDataProperties option"

text \<open>\<open>Partial<AreaData>\<close>: any of the fields, the identifier too.\<close>

record PartialAreaData =
  p_id :: "string option"
  p_name :: "string option"
  p_x :: "rat option"
  p_y :: "rat option"
  p_width :: "rat option"
  p_height :: "rat option"
  p_properties :: "AreaDataProperties option"

text \<open>
  The recursive merge of lodash (\<open>_.merge(object, source)\<close>), on the values modelled
  here: a source object is merged entry by entry into the destination's object (into an
  empty object when the destination has none, or a primitive, under that key), a source
  primitive replaces what the destination has. The destination's other keys stay.
\<close>

fun mergeValue :: "jsvalue option \<Rightarrow> jsvalue \<Rightarrow> jsvalue"
and mergeFields :: "(string \<times> jsvalue) list \<Rightarrow> (string \<times> jsvalue) list \<Rightarrow> (string \<times> jsvalue) list" where
  "mergeValue (Some (Obj d)) (Obj s) = Obj (mergeFields d s)"
| "mergeValue _ (Obj s) = Obj (mergeFields [] s)"
| "mergeValue _ (Prim p) = Prim p"
| "mergeFields d [] = d"
| "mergeFields d ((k, v) # s) = mergeFields (AList.update k (mergeValue (map_of d k) v) d) s"

text \<open>
  \<open>_.merge(this.areaData, dataToModify)\<close>: a field the source does not have keeps the
  stored value; \<open>properties\<close> is an object and is merged recursively.
\<close>

definition merge :: "AreaData \<Rightarrow> AreaDataAtLeastId \<Rightarrow> AreaData" where
  "merge a d =
     \<lparr> area_id = d_id d,
       area_name = (case d_name d of None \<Rightarrow> area_name a | Some v \<Rightarrow> v),
       area_x = (case d_x d of None \<Rightarrow> area_x a | Some v \<Rightarrow> v),
       area_y = (case d_y d of None \<Rightarrow> area_y a | Some v \<Rightarrow> v),
       area_width = (case d_width d of None \<Rightarrow> area_width a | Some v \<Rightarrow> v),
       area_height = (case d_height d of None \<Rightarrow> area_height a | Some v \<Rightarrow> v),
       area_properties = (case d_properties d of
                            None \<Rightarrow> area_properties a
                          | Some ps \<Rightarrow> mergeFields (area_properties a) ps) \<rparr>"

subsection \<open>The rectangle and its anchor points\<close>

text \<open>
  The part of \<open>Phaser.GameObjects.Rectangle\<close> that the class reads and writes: the
  position of its origin, its size, its scale and its visibility. The origin of a
  rectangle is its center (\<open>originX = originY = 0.5\<close>), and it is never rotated here.
  The width and the height are those given at creation and are never written again.
\<close>

record Rectangle =
  rect_x :: rat
  rect_y :: rat
  rect_width :: rat
  rect_height :: rat
  scaleX :: rat
  scaleY :: rat
  rect_visible :: bool

text \<open>
  The displayed size, as Phaser's \<open>Shape\<close> has it: reading \<open>displayWidth\<close> returns
  \<open>scaleX * width\<close>, and writing a value to it sets \<open>scaleX\<close> to \<open>value / width\<close>.
  What is read after a write is thus the value divided and multiplied again by the
  width at creation, with the rounding of both operations.
\<close>

definition displayWidth :: "Rectangle \<Rightarrow> rat" where
  "displayWidth r = fmul (scaleX r) (rect_width r)"

definition displayHeight :: "Rectangle \<Rightarrow> rat" where
  "displayHeight r = fmul (scaleY r) (rect_height r)"

definition displayWidth_update :: "rat \<Rightarrow> Rectangle \<Rightarrow> Rectangle" where
  "displayWidth_update v r = r\<lparr> scaleX := fdiv v (rect_width r) \<rparr>"

definition displayHeight_update :: "rat \<Rightarrow> Rectangle \<Rightarrow> Rectangle" where
  "displayHeight_update v r = r\<lparr> scaleY := fdiv v (rect_height r) \<rparr>"

text \<open>What is read from the displayed size after \<open>v\<close> has been written to it.\<close>

definition readBack :: "rat \<Rightarrow> rat \<Rightarrow> rat" where
  "readBack v w = fmul (fdiv v w) w"

definition originX :: rat where "originX = 0.5"
definition originY :: rat where "originY = 0.5"

text \<open>
  The eight anchor points, as Phaser's \<open>GetBounds\<close> component computes them for an
  unrotated object: the left edge is \<open>x - displayWidth * originX\<close>, the horizontal
  middle is the left edge plus \<open>displayWidth / 2\<close>, the right edge is the left edge plus
  \<open>displayWidth\<close>, and the same downwards, each operation rounded.
\<close>

definition getTopLeft :: "Rectangle \<Rightarrow> rat \<times> rat" where
  "getTopLeft r =
     (fsub (rect_x r) (fmul (displayWidth r) originX),
      fsub (rect_y r) (fmul (displayHeight r) originY))"

definition getTopCenter :: "Rectangle \<Rightarrow> rat \<times> rat" where
  "getTopCenter r =
     (fadd (fsub (rect_x r) (fmul (displayWidth r) originX)) (fdiv (displayWidth r) 2),
      fsub (rect_y r) (fmul (displayHeight r) originY))"

definition getTopRight :: "Rectangle \<Rightarrow> rat \<times> rat" where
  "getTopRight r =
     (fadd (fsub (rect_x r) (fmul (displayWidth r) originX)) (displayWidth r),
      fsub (rect_y r) (fmul (displayHeight r) originY))"

definition getLeftCenter :: "Rectangle \<Rightarrow> rat \<times> rat" where
  "getLeftCenter r =
     (fsub (rect_x r) (fmul (displayWidth r) originX),
      fadd (fsub (rect_y r) (fmul (displayHeight r) originY)) (fdiv (displayHeight r) 2))"

definition getRightCenter :: "Rectangle \<Rightarrow> rat \<times> rat" where
  "getRightCenter r =
     (fadd (fsub (rect_x r) (fmul (displayWidth r) originX)) (displayWidth r),
      fadd (fsub (rect_y r) (fmul (displayHeight r) originY)) (fdiv (displayHeight r) 2))"

definition getBottomLeft :: "Rectangle \<Rightarrow> rat \<times> rat" where
  "getBottomLeft r =
     (fsub (rect_x r) (fmul (displayWidth r) originX),
      fadd (fsub (rect_y r) (fmul (displayHeight r) originY)) (displayHeight r))"

definition getBottomCenter :: "Rectangle \<Rightarrow> rat \<times> rat" where
  "getBottomCenter r =
     (fadd (fsub (rect_x r) (fmul (displayWidth r) originX)) (fdiv (displayWidth r) 2),
      fadd (fsub (rect_y r) (fmul (displayHeight r) originY)) (displayHeight r))"

definition getBottomRight :: "Rectangle \<Rightarrow> rat \<times> rat" where
  "getBottomRight r =
     (fadd (fsub (rect_x r) (fmul (displayWidth r) originX)) (displayWidth r),
      fadd (fsub (rect_y r) (fmul (displayHeight r) originY)) (displayHeight r))"

subsection \<open>The squares\<close>

text \<open>
  Modelled from the spec: the file \<open>SizeAlteringSquare.ts\<close> is not among the sources.
  \<open>SizeAlteringSquarePosition\<close> (imported as \<open>Edge\<close>) numbers the eight squares in the
  order in which the constructor creates them; a square has a position and a
  visibility, and reports \<open>Selected\<close> when the pointer is pressed on it and
  \<open>Released\<close> when the pointer is lifted.
\<close>

datatype Edge =
  TopLeft | TopCenter | TopRight | LeftCenter | RightCenter
  | BottomLeft | BottomCenter | BottomRight

record SizeAlteringSquare =
  sq_x :: rat
  sq_y :: rat
  sq_visible :: bool

definition newSizeAlteringSquare :: "rat \<times> rat \<Rightarrow> SizeAlteringSquare" where
  "newSizeAlteringSquare pos = \<lparr> sq_x = fst pos, sq_y = snd pos, sq_visible = True \<rparr>"

definition setPosition :: "rat \<Rightarrow> rat \<Rightarrow> SizeAlteringSquare \<Rightarrow> SizeAlteringSquare" where
  "setPosition px py sq = sq\<lparr> sq_x := px, sq_y := py \<rparr>"

subsection \<open>The object and what it does to the outside\<close>

datatype AreaPreviewEvent = Clicked | DoubleClicked | Update AreaDataAtLeastId | Delete

datatype error = NotTheGameScene

datatype effect = Emit AreaPreviewEvent | MarkDirty | Throw error

text \<open>
  The array \<open>squares\<close> has exactly eight entries and is only ever read and written at
  the indices of \<open>Edge\<close>: it is a function from \<^typ>\<open>Edge\<close>. \<open>sceneIsGameScene\<close>
  is the outcome of \<open>this.scene instanceof GameScene\<close>, fixed at construction.
\<close>

record AreaPreview =
  areaData :: AreaData
  preview :: Rectangle
  squares :: "Edge \<Rightarrow> SizeAlteringSquare"
  selected :: bool
  moved :: bool
  squareSelected :: bool
  sceneIsGameScene :: bool

definition createPreview :: "AreaData \<Rightarrow> Rectangle" where
  "createPreview a =
     \<lparr> rect_x = fadd (area_x a) (fmul (area_width a) 0.5),
       rect_y = fadd (area_y a) (fmul (area_height a) 0.5),
       rect_width = area_width a,
       rect_height = area_height a,
       scaleX = 1,
       scaleY = 1,
       rect_visible = True \<rparr>"

definition showSizeAlteringSquares :: "bool \<Rightarrow> AreaPreview \<Rightarrow> AreaPreview" where
  "showSizeAlteringSquares show s =
     (if show \<and> \<not> rect_visible (preview s) then s
      else s\<lparr> squares := (\<lambda>e. (squares s e)\<lparr> sq_visible := show \<rparr>) \<rparr>)"

text \<open>The anchor point of the rectangle on which each square sits.\<close>

fun anchor :: "Edge \<Rightarrow> Rectangle \<Rightarrow> rat \<times> rat" where
  "anchor TopLeft r = getTopLeft r"
| "anchor TopCenter r = getTopCenter r"
| "anchor TopRight r = getTopRight r"
| "anchor LeftCenter r = getLeftCenter r"
| "anchor RightCenter r = getRightCenter r"
| "anchor BottomLeft r = getBottomLeft r"
| "anchor BottomCenter r = getBottomCenter r"
| "anchor BottomRight r = getBottomRight r"

definition updateSquaresPositions :: "AreaPreview \<Rightarrow> AreaPreview" where
  "updateSquaresPositions s =
     s\<lparr> squares := (\<lambda>e. setPosition (fst (anchor e (preview s))) (snd (anchor e (preview s)))
                              (squares s e)) \<rparr>"

definition updateAreaDataWithSquaresAdjustments :: "AreaPreview \<Rightarrow> AreaPreview" where
  "updateAreaDataWithSquaresAdjustments s =
     s\<lparr> areaData := (areaData s)
          \<lparr> area_x := fsub (rect_x (preview s)) (fmul (displayWidth (preview s)) 0.5),
            area_y := fsub (rect_y (preview s)) (fmul (displayHeight (preview s)) 0.5),
            area_width := displayWidth (preview s),
            area_height := displayHeight (preview s) \<rparr> \<rparr>"

definition getAreaData :: "AreaPreview \<Rightarrow> AreaData" where
  "getAreaData s = areaData s"

definition getName :: "AreaPreview \<Rightarrow> string" where
  "getName s = area_name (areaData s)"

definition getId :: "AreaPreview \<Rightarrow> string" where
  "getId s = area_id (areaData s)"

text \<open>
  The constructor: the rectangle is built from the area, a square is created on each
  of its anchor points, and the squares are hidden. The second argument says whether
  the scene is a \<open>GameScene\<close>.
\<close>

definition constructor :: "AreaData \<Rightarrow> bool \<Rightarrow> AreaPreview" where
  "constructor a isGameScene =
     showSizeAlteringSquares False
       \<lparr> areaData = a,
         preview = createPreview a,
         squares = (\<lambda>e. newSizeAlteringSquare (anchor e (createPreview a))),
         selected = False,
         moved = False,
         squareSelected = False,
         sceneIsGameScene = isGameScene \<rparr>"

subsection \<open>Public methods\<close>

definition delete :: "AreaPreview \<Rightarrow> AreaPreview \<times> effect list" where
  "delete s = (s, [Emit Delete])"

definition select :: "bool \<Rightarrow> AreaPreview \<Rightarrow> AreaPreview \<times> effect list" where
  "select v s =
     (if selected s = v then (s, [])
      else (showSizeAlteringSquares v (s\<lparr> selected := v \<rparr>), []))"

definition setVisible :: "bool \<Rightarrow> AreaPreview \<Rightarrow> AreaPreview \<times> effect list" where
  "setVisible v s =
     (let s1 = s\<lparr> preview := (preview s)\<lparr> rect_visible := v \<rparr> \<rparr>
      in if \<not> v then (showSizeAlteringSquares False s1, []) else (s1, []))"

definition updatePreview :: "AreaDataAtLeastId \<Rightarrow> AreaPreview \<Rightarrow> AreaPreview \<times> effect list" where
  "updatePreview dataToModify s =
     (let s1 = s\<lparr> areaData := merge (areaData s) dataToModify \<rparr>;
          s2 = s1\<lparr> preview := (preview s1)
                 \<lparr> rect_x := fadd (area_x (areaData s1)) (fmul (area_width (areaData s1)) 0.5) \<rparr> \<rparr>;
          s3 = s2\<lparr> preview := (preview s2)
                 \<lparr> rect_y := fadd (area_y (areaData s2)) (fmul (area_height (areaData s2)) 0.5) \<rparr> \<rparr>;
          s4 = s3\<lparr> preview := displayWidth_update (area_width (areaData s3)) (preview s3) \<rparr>;
          s5 = s4\<lparr> preview := displayHeight_update (area_height (areaData s4)) (preview s4) \<rparr>
      in (updateSquaresPositions s5, []))"

definition setProperty :: "string \<Rightarrow> jsvalue \<Rightarrow> AreaPreview \<Rightarrow> AreaPreview \<times> effect list" where
  "setProperty key v s =
     (let s1 = s\<lparr> areaData := (areaData s)
                   \<lparr> area_properties := AList.update key v (area_properties (areaData s)) \<rparr> \<rparr>;
          data = \<lparr> d_id = area_id (getAreaData s1), d_name = None, d_x = None, d_y = None,
                   d_width = None, d_height = None, d_properties = Some [(key, v)] \<rparr>
      in (s1, [Emit (Update data)]))"

text \<open>
  \<open>{ id: this.areaData.id, ...dataToChange }\<close>: the fields of \<open>dataToChange\<close>, with
  the stored identifier when it has none.
\<close>

definition withId :: "string \<Rightarrow> PartialAreaData \<Rightarrow> AreaDataAtLeastId" where
  "withId i p =
     \<lparr> d_id = (case p_id p of None \<Rightarrow> i | Some j \<Rightarrow> j),
       d_name = p_name p, d_x = p_x p, d_y = p_y p,
       d_width = p_width p, d_height = p_height p, d_properties = p_properties p \<rparr>"

definition updateData :: "PartialAreaData \<Rightarrow> AreaPreview \<Rightarrow> AreaPreview \<times> effect list" where
  "updateData dataToChange s =
     (let data = withId (area_id (areaData s)) dataToChange;
          (s1, effs) = updatePreview data s
      in (s1, effs @ [Emit (Update data)]))"

subsection \<open>Event handlers\<close>

text \<open>Assignments to one field of the rectangle or of one square.\<close>

definition setPreviewX :: "rat \<Rightarrow> AreaPreview \<Rightarrow> AreaPreview" where
  "setPreviewX v s = s\<lparr> preview := (preview s)\<lparr> rect_x := v \<rparr> \<rparr>"

definition setPreviewY :: "rat \<Rightarrow> AreaPreview \<Rightarrow> AreaPreview" where
  "setPreviewY v s = s\<lparr> preview := (preview s)\<lparr> rect_y := v \<rparr> \<rparr>"

definition setDisplayWidth :: "rat \<Rightarrow> AreaPreview \<Rightarrow> AreaPreview" where
  "setDisplayWidth v s = s\<lparr> preview := displayWidth_update v (preview s) \<rparr>"

definition setDisplayHeight :: "rat \<Rightarrow> AreaPreview \<Rightarrow> AreaPreview" where
  "setDisplayHeight v s = s\<lparr> preview := displayHeight_update v (preview s) \<rparr>"

definition setSquareX :: "Edge \<Rightarrow> rat \<Rightarrow> AreaPreview \<Rightarrow> AreaPreview" where
  "setSquareX index v s = s\<lparr> squares := (squares s)(index := (squares s index)\<lparr> sq_x := v \<rparr>) \<rparr>"

definition setSquareY :: "Edge \<Rightarrow> rat \<Rightarrow> AreaPreview \<Rightarrow> AreaPreview" where
  "setSquareY index v s = s\<lparr> squares := (squares s)(index := (squares s index)\<lparr> sq_y := v \<rparr>) \<rparr>"

text \<open>
  \<open>this.scene.markDirty()\<close> when the scene is a \<open>GameScene\<close>, the error otherwise.
  It is the last statement of both drag handlers: what they wrote before stays written.
\<close>

definition markDirtyOrThrow :: "AreaPreview \<Rightarrow> AreaPreview \<times> effect list" where
  "markDirtyOrThrow s =
     (if sceneIsGameScene s then (s, [MarkDirty]) else (s, [Throw NotTheGameScene]))"

text \<open>
  Pointer events on the rectangle. The argument of the first says whether the target
  of the DOM event is the canvas; the first argument of the second is \<open>pointer.isDown\<close>.
\<close>

definition previewPointerDown :: "bool \<Rightarrow> AreaPreview \<Rightarrow> AreaPreview \<times> effect list" where
  "previewPointerDown targetIsCanvas s =
     (if \<not> targetIsCanvas then (s, []) else (s, [Emit Clicked]))"

definition previewDrag :: "bool \<Rightarrow> rat \<Rightarrow> rat \<Rightarrow> AreaPreview \<Rightarrow> AreaPreview \<times> effect list" where
  "previewDrag isDown dragX dragY s =
     (if isDown \<and> selected s \<and> \<not> squareSelected s then
        (let s1 = setPreviewX dragX s;
             s2 = setPreviewY dragY s1;
             s3 = updateSquaresPositions s2;
             s4 = s3\<lparr> moved := True \<rparr>
         in markDirtyOrThrow s4)
      else (s, []))"

text \<open>The payload of the event that commits the geometry: the identifier and the four numbers.\<close>

definition geometryData :: "AreaPreview \<Rightarrow> AreaDataAtLeastId" where
  "geometryData s =
     \<lparr> d_id = area_id (getAreaData s),
       d_name = None,
       d_x = Some (fsub (rect_x (preview s)) (fmul (displayWidth (preview s)) 0.5)),
       d_y = Some (fsub (rect_y (preview s)) (fmul (displayHeight (preview s)) 0.5)),
       d_width = Some (displayWidth (preview s)),
       d_height = Some (displayHeight (preview s)),
       d_properties = None \<rparr>"

definition previewPointerUp :: "AreaPreview \<Rightarrow> AreaPreview \<times> effect list" where
  "previewPointerUp s =
     (if selected s \<and> moved s then
        (let s1 = s\<lparr> moved := False \<rparr>;
             s2 = updateAreaDataWithSquaresAdjustments s1
         in (s2, [Emit (Update (geometryData s2))]))
      else (s, []))"

text \<open>Events of the square \<open>index\<close>.\<close>

definition squareOnSelected :: "Edge \<Rightarrow> AreaPreview \<Rightarrow> AreaPreview \<times> effect list" where
  "squareOnSelected index s = (s\<lparr> squareSelected := True \<rparr>, [])"

text \<open>
  The branch of the drag handler for the four squares on the edge midpoints. Its
  \<open>newWidth\<close> and \<open>newHeight\<close> are constants of the block: the variables of the same
  names that the handler tests afterwards keep the value 0.
\<close>

definition edgeCenterSize :: "AreaPreview \<Rightarrow> rat \<times> rat" where
  "edgeCenterSize s =
     (fsub (sq_x (squares s RightCenter)) (sq_x (squares s LeftCenter)),
      fsub (sq_y (squares s BottomCenter)) (sq_y (squares s TopCenter)))"

definition edgeCenterBranch :: "Edge \<Rightarrow> rat \<Rightarrow> rat \<Rightarrow> AreaPreview \<Rightarrow> AreaPreview" where
  "edgeCenterBranch index oldX oldY s =
     (let (newWidth, newHeight) = edgeCenterSize s;
          s1 = (if newWidth \<ge> 32 then
                  (let t = setDisplayWidth newWidth s
                   in setPreviewX (fadd (sq_x (squares t LeftCenter))
                                        (fmul (displayWidth (preview t)) 0.5)) t)
                else setSquareX index oldX s)
      in if newHeight \<ge> 32 then
           (let t = setDisplayHeight newHeight s1
            in setPreviewY (fadd (sq_y (squares t TopCenter))
                                 (fmul (displayHeight (preview t)) 0.5)) t)
         else setSquareY index oldY s1)"

text \<open>
  The \<open>switch\<close> for the four squares on the corners: the new width, height and
  center \<open>(newWidth, newHeight, newCenterX, newCenterY)\<close>. No case matches another
  index, and the four variables keep the value 0.
\<close>

definition cornerBranch :: "Edge \<Rightarrow> AreaPreview \<Rightarrow> rat \<times> rat \<times> rat \<times> rat" where
  "cornerBranch index s =
     (let square = squares s index in
      case index of
        TopLeft \<Rightarrow>
          (let newWidth = fsub (fst (getRightCenter (preview s))) (sq_x square);
               newHeight = fsub (snd (getBottomCenter (preview s))) (sq_y square)
           in (newWidth, newHeight,
               fadd (sq_x square) (fmul newWidth 0.5), fadd (sq_y square) (fmul newHeight 0.5)))
      | TopRight \<Rightarrow>
          (let newWidth = fsub (sq_x square) (fst (getLeftCenter (preview s)));
               newHeight = fsub (snd (getBottomCenter (preview s))) (sq_y square)
           in (newWidth, newHeight,
               fsub (sq_x square) (fmul newWidth 0.5), fadd (sq_y square) (fmul newHeight 0.5)))
      | BottomLeft \<Rightarrow>
          (let newWidth = fsub (fst (getRightCenter (preview s))) (sq_x square);
               newHeight = fsub (sq_y square) (snd (getTopCenter (preview s)))
           in (newWidth, newHeight,
               fadd (sq_x square) (fmul newWidth 0.5), fsub (sq_y square) (fmul newHeight 0.5)))
      | BottomRight \<Rightarrow>
          (let newWidth = fsub (sq_x square) (fst (getLeftCenter (preview s)));
               newHeight = fsub (sq_y square) (snd (getTopCenter (preview s)))
           in (newWidth, newHeight,
               fsub (sq_x square) (fmul newWidth 0.5), fsub (sq_y square) (fmul newHeight 0.5)))
      | _ \<Rightarrow> (0, 0, 0, 0))"

text \<open>
  The width and height that the handler computes for the square \<open>index\<close>, in the state
  where the square has been moved to the pointer: those of the first branch for a
  square on an edge midpoint, those of the \<open>switch\<close> for a square on a corner.
\<close>

definition computedSize :: "Edge \<Rightarrow> AreaPreview \<Rightarrow> rat \<times> rat" where
  "computedSize index s =
     (if index \<in> set [RightCenter, LeftCenter, TopCenter, BottomCenter] then edgeCenterSize s
      else (fst (cornerBranch index s), fst (snd (cornerBranch index s))))"

definition squareOnDrag :: "Edge \<Rightarrow> rat \<Rightarrow> rat \<Rightarrow> AreaPreview \<Rightarrow> AreaPreview \<times> effect list" where
  "squareOnDrag index dragX dragY s =
     (let oldX = sq_x (squares s index);
          oldY = sq_y (squares s index);
          s1 = setSquareX index dragX s;
          s2 = setSquareY index dragY s1;
          (s3, newWidth, newHeight, newCenterX, newCenterY) =
             (if index \<in> set [RightCenter, LeftCenter, TopCenter, BottomCenter]
              then (edgeCenterBranch index oldX oldY s2, 0, 0, 0, 0)
              else (s2, cornerBranch index s2));
          s4 = (if newWidth \<ge> 32 then setPreviewX newCenterX (setDisplayWidth newWidth s3)
                else setSquareX index oldX s3);
          s5 = (if newHeight \<ge> 32 then setPreviewY newCenterY (setDisplayHeight newHeight s4)
                else setSquareY index oldY s4);
          s6 = updateSquaresPositions s5
      in markDirtyOrThrow s6)"

definition squareOnReleased :: "Edge \<Rightarrow> AreaPreview \<Rightarrow> AreaPreview \<times> effect list" where
  "squareOnReleased index s =
     (let s1 = s\<lparr> squareSelected := False \<rparr>;
          s2 = updateAreaDataWithSquaresAdjustments s1
      in (s2, [Emit (Update (geometryData s2))]))"

subsection \<open>Sequences of calls and events\<close>

datatype input =
  CallDelete
  | CallSelect bool
  | CallSetVisible bool
  | CallUpdatePreview AreaDataAtLeastId
  | CallSetProperty string jsvalue
  | CallUpdateData PartialAreaData
  | PreviewPointerDown bool
  | PreviewDrag bool rat rat
  | PreviewPointerUp
  | SquareSelected Edge
  | SquareDrag Edge rat rat
  | SquareReleased Edge

fun step :: "input \<Rightarrow> AreaPreview \<Rightarrow> AreaPreview \<times> effect list" where
  "step CallDelete s = delete s"
| "step (CallSelect v) s = select v s"
| "step (CallSetVisible v) s = setVisible v s"
| "step (CallUpdatePreview d) s = updatePreview d s"
| "step (CallSetProperty k v) s = setProperty k v s"
| "step (CallUpdateData p) s = updateData p s"
| "step (PreviewPointerDown c) s = previewPointerDown c s"
| "step (PreviewDrag isDown dragX dragY) s = previewDrag isDown dragX dragY s"
| "step PreviewPointerUp s = previewPointerUp s"
| "step (SquareSelected i) s = squareOnSelected i s"
| "step (SquareDrag i dragX dragY) s = squareOnDrag i dragX dragY s"
| "step (SquareReleased i) s = squareOnReleased i s"

text \<open>
  A sequence of calls and events, one after the other. An error thrown by a handler
  ends that handler only: the next event finds the state the handler left.
\<close>

fun run :: "input list \<Rightarrow> AreaPreview \<Rightarrow> AreaPreview \<times> effect list" where
  "run [] s = (s, [])"
| "run (i # ins) s =
     (let (s1, e1) = step i s; (s2, e2) = run ins s1 in (s2, e1 @ e2))"

text \<open>
  A resize gesture on the square \<open>index\<close>: the pointer is pressed on it, dragged
  through the given positions, and lifted.
\<close>

definition resizeGesture :: "Edge \<Rightarrow> (rat \<times> rat) list \<Rightarrow> input list" where
  "resizeGesture index frames =
     SquareSelected index # map (\<lambda>(dragX, dragY). SquareDrag index dragX dragY) frames
       @ [SquareReleased index]"

text \<open>The states the object can be in: those a sequence of calls and events leads to.\<close>

inductive reachable :: "AreaPreview \<Rightarrow> bool" where
  created: "reachable (constructor a isGameScene)"
| stepped: "reachable s \<Longrightarrow> reachable (fst (step i s))"

text \<open>Every square sits on its anchor point of the rectangle.\<close>

definition squaresOnAnchors :: "AreaPreview \<Rightarrow> bool" where
  "squaresOnAnchors s =
     (\<forall>e. sq_x (squares s e) = fst (anchor e (preview s)) \<and>
          sq_y (squares s e) = snd (anchor e (preview s)))"

subsection \<open>Notions used in the statements\<close>

text \<open>The squares that sit on each edge of the rectangle.\<close>

definition onLeftEdge :: "Edge \<Rightarrow> bool" where
  "onLeftEdge e = (e \<in> set [TopLeft, LeftCenter, BottomLeft])"

definition onRightEdge :: "Edge \<Rightarrow> bool" where
  "onRightEdge e = (e \<in> set [TopRight, RightCenter, BottomRight])"

definition onTopEdge :: "Edge \<Rightarrow> bool" where
  "onTopEdge e = (e \<in> set [TopLeft, TopCenter, TopRight])"

definition onBottomEdge :: "Edge \<Rightarrow> bool" where
  "onBottomEdge e = (e \<in> set [BottomLeft, BottomCenter, BottomRight])"

text \<open>
  The coordinates of the four edges of the rectangle, read from its edge midpoints:
  the abscissa of \<open>getLeftCenter\<close> and of \<open>getRightCenter\<close>, the ordinate of
  \<open>getTopCenter\<close> and of \<open>getBottomCenter\<close>.
\<close>

abbreviation leftX :: "Rectangle \<Rightarrow> rat" where "leftX r \<equiv> fst (getLeftCenter r)"
abbreviation rightX :: "Rectangle \<Rightarrow> rat" where "rightX r \<equiv> fst (getRightCenter r)"
abbreviation topY :: "Rectangle \<Rightarrow> rat" where "topY r \<equiv> snd (getTopCenter r)"
abbreviation bottomY :: "Rectangle \<Rightarrow> rat" where "bottomY r \<equiv> snd (getBottomCenter r)"


text \<open>The events among what a method or a sequence did, in order.\<close>

fun emitted :: "effect list \<Rightarrow> AreaPreviewEvent list" where
  "emitted [] = []"
| "emitted (Emit ev # effs) = ev # emitted effs"
| "emitted (_ # effs) = emitted effs"

text \<open>The drag events of the square \<open>index\<close>, and of the rectangle, through a list of positions.\<close>

definition squareDrags :: "Edge \<Rightarrow> (rat \<times> rat) list \<Rightarrow> input list" where
  "squareDrags index frames = map (\<lambda>(dragX, dragY). SquareDrag index dragX dragY) frames"

definition previewDrags :: "(rat \<times> rat) list \<Rightarrow> input list" where
  "previewDrags frames = map (\<lambda>(dragX, dragY). PreviewDrag True dragX dragY) frames"

text \<open>
  A sequence of calls of \<open>select\<close> (\<open>Inl v\<close>) and of \<open>setVisible\<close> (\<open>Inr v\<close>).
\<close>

definition visibilityCalls :: "(bool + bool) list \<Rightarrow> input list" where
  "visibilityCalls cs = map (case_sum CallSelect CallSetVisible) cs"

text \<open>
  The inputs that keep the minimum size: every call and event, except an update from
  outside that does not give both a width and a height of at least 32.
\<close>

fun keepsMinimum :: "input \<Rightarrow> bool" where
  "keepsMinimum (CallUpdatePreview d) =
     (case (d_width d, d_height d) of (Some w, Some h) \<Rightarrow> 32 \<le> w \<and> 32 \<le> h | _ \<Rightarrow> False)"
| "keepsMinimum (CallUpdateData p) =
     (case (p_width p, p_height p) of (Some w, Some h) \<Rightarrow> 32 \<le> w \<and> 32 \<le> h | _ \<Rightarrow> False)"
| "keepsMinimum _ = True"

text \<open>
  An extent that has passed the test of the minimum: a value of at least 32, or what
  is read from the displayed size after such a value has been written to it.
\<close>

definition passedMinimum :: "rat \<Rightarrow> rat \<Rightarrow> bool" where
  "passedMinimum w u = (32 \<le> u \<or> (\<exists>v. 32 \<le> v \<and> u = readBack v w))"

text \<open>The area of the scenarios: 100 by 100 at the origin, with the identifier \<open>a1\<close>.\<close>

definition exampleArea :: AreaData where
  "exampleArea =
     \<lparr> area_id = ''a1'', area_name = ''meeting room'', area_x = 0, area_y = 0,
       area_width = 100, area_height = 100, area_properties = [(''silent'', Prim ''true'')] \<rparr>"

section \<open>Properties\<close>

subsection \<open>Fields of the rectangle and of the object\<close>

lemmas getter_defs = getTopLeft_def getTopCenter_def getTopRight_def getLeftCenter_def
  getRightCenter_def getBottomLeft_def getBottomCenter_def getBottomRight_def

lemmas setter_defs = setSquareX_def setSquareY_def setPreviewX_def setPreviewY_def
  setDisplayWidth_def setDisplayHeight_def

lemmas onEdge_defs = onLeftEdge_def onRightEdge_def onTopEdge_def onBottomEdge_def

lemma displayed_update [simp]:
  "displayWidth (displayWidth_update v r) = readBack v (rect_width r)"
  "displayHeight (displayHeight_update v r) = readBack v (rect_height r)"
  "displayHeight (displayWidth_update v r) = displayHeight r"
  "displayWidth (displayHeight_update v r) = displayWidth r"
  "displayWidth (r\<lparr> rect_x := x \<rparr>) = displayWidth r"
  "displayWidth (r\<lparr> rect_y := y \<rparr>) = displayWidth r"
  "displayHeight (r\<lparr> rect_x := x \<rparr>) = displayHeight r"
  "displayHeight (r\<lparr> rect_y := y \<rparr>) = displayHeight r"
  "displayWidth (r\<lparr> rect_visible := b \<rparr>) = displayWidth r"
  "displayHeight (r\<lparr> rect_visible := b \<rparr>) = displayHeight r"
  by (simp_all add: displayWidth_def displayHeight_def displayWidth_update_def
        displayHeight_update_def readBack_def)

lemma rect_update [simp]:
  "rect_x (displayWidth_update v r) = rect_x r" "rect_y (displayWidth_update v r) = rect_y r"
  "rect_x (displayHeight_update v r) = rect_x r" "rect_y (displayHeight_update v r) = rect_y r"
  "rect_width (displayWidth_update v r) = rect_width r"
  "rect_height (displayWidth_update v r) = rect_height r"
  "rect_width (displayHeight_update v r) = rect_width r"
  "rect_height (displayHeight_update v r) = rect_height r"
  "rect_visible (displayWidth_update v r) = rect_visible r"
  "rect_visible (displayHeight_update v r) = rect_visible r"
  by (simp_all add: displayWidth_update_def displayHeight_update_def)

text \<open>An anchor point depends on the center and on the displayed size, axis by axis.\<close>

lemma anchor_cong:
  "rect_x r' = rect_x r \<Longrightarrow> displayWidth r' = displayWidth r \<Longrightarrow> fst (anchor e r') = fst (anchor e r)"
  "rect_y r' = rect_y r \<Longrightarrow> displayHeight r' = displayHeight r \<Longrightarrow> snd (anchor e r') = snd (anchor e r)"
  by (cases e; simp add: getter_defs)+

lemma anchor_visible [simp]: "anchor e (r\<lparr> rect_visible := v \<rparr>) = anchor e r"
  by (cases e) (simp_all add: getter_defs)

lemma edge_simps:
  "leftX r = fsub (rect_x r) (fmul (displayWidth r) 0.5)"
  "rightX r = fadd (fsub (rect_x r) (fmul (displayWidth r) 0.5)) (displayWidth r)"
  "topY r = fsub (rect_y r) (fmul (displayHeight r) 0.5)"
  "bottomY r = fadd (fsub (rect_y r) (fmul (displayHeight r) 0.5)) (displayHeight r)"
  by (simp_all add: getter_defs originX_def originY_def)

lemma setter_preview:
  "preview (setSquareX i v s) = preview s"
  "preview (setSquareY i v s) = preview s"
  "preview (setPreviewX v s) = (preview s)\<lparr> rect_x := v \<rparr>"
  "preview (setPreviewY v s) = (preview s)\<lparr> rect_y := v \<rparr>"
  "preview (setDisplayWidth v s) = displayWidth_update v (preview s)"
  "preview (setDisplayHeight v s) = displayHeight_update v (preview s)"
  "preview (updateSquaresPositions s) = preview s"
  by (simp_all add: setter_defs updateSquaresPositions_def)

lemma setter_squares:
  "squares (setSquareX i v s) = (squares s)(i := (squares s i)\<lparr> sq_x := v \<rparr>)"
  "squares (setSquareY i v s) = (squares s)(i := (squares s i)\<lparr> sq_y := v \<rparr>)"
  "squares (setPreviewX v s) = squares s"
  "squares (setPreviewY v s) = squares s"
  "squares (setDisplayWidth v s) = squares s"
  "squares (setDisplayHeight v s) = squares s"
  by (simp_all add: setter_defs)

lemma setter_rest:
  "areaData (setSquareX i v s) = areaData s" "areaData (setSquareY i v s) = areaData s"
  "areaData (setPreviewX v s) = areaData s" "areaData (setPreviewY v s) = areaData s"
  "areaData (setDisplayWidth v s) = areaData s" "areaData (setDisplayHeight v s) = areaData s"
  "areaData (updateSquaresPositions s) = areaData s"
  "selected (setSquareX i v s) = selected s" "selected (setSquareY i v s) = selected s"
  "selected (setPreviewX v s) = selected s" "selected (setPreviewY v s) = selected s"
  "selected (setDisplayWidth v s) = selected s" "selected (setDisplayHeight v s) = selected s"
  "selected (updateSquaresPositions s) = selected s"
  "moved (setSquareX i v s) = moved s" "moved (setSquareY i v s) = moved s"
  "moved (setPreviewX v s) = moved s" "moved (setPreviewY v s) = moved s"
  "moved (setDisplayWidth v s) = moved s" "moved (setDisplayHeight v s) = moved s"
  "moved (updateSquaresPositions s) = moved s"
  "squareSelected (setSquareX i v s) = squareSelected s" "squareSelected (setSquareY i v s) = squareSelected s"
  "squareSelected (setPreviewX v s) = squareSelected s" "squareSelected (setPreviewY v s) = squareSelected s"
  "squareSelected (setDisplayWidth v s) = squareSelected s" "squareSelected (setDisplayHeight v s) = squareSelected s"
  "squareSelected (updateSquaresPositions s) = squareSelected s"
  "sceneIsGameScene (setSquareX i v s) = sceneIsGameScene s" "sceneIsGameScene (setSquareY i v s) = sceneIsGameScene s"
  "sceneIsGameScene (setPreviewX v s) = sceneIsGameScene s" "sceneIsGameScene (setPreviewY v s) = sceneIsGameScene s"
  "sceneIsGameScene (setDisplayWidth v s) = sceneIsGameScene s" "sceneIsGameScene (setDisplayHeight v s) = sceneIsGameScene s"
  "sceneIsGameScene (updateSquaresPositions s) = sceneIsGameScene s"
  by (simp_all add: setter_defs updateSquaresPositions_def)

subsection \<open>One drag event of a square\<close>

text \<open>What one drag event of a square writes into the rectangle, branch by branch.\<close>

lemma squareOnDrag_preview_edge:
  assumes "e \<in> set [RightCenter, LeftCenter, TopCenter, BottomCenter]"
  shows "preview (fst (squareOnDrag e dragX dragY s)) =
     (let s2 = setSquareY e dragY (setSquareX e dragX s);
          (newWidth, newHeight) = edgeCenterSize s2;
          r1 = (if newWidth \<ge> 32
                then (displayWidth_update newWidth (preview s))
                       \<lparr> rect_x := fadd (sq_x (squares s2 LeftCenter))
                                      (fmul (readBack newWidth (rect_width (preview s))) 0.5) \<rparr>
                else preview s)
      in if newHeight \<ge> 32
         then (displayHeight_update newHeight r1)
                \<lparr> rect_y := fadd (sq_y (squares s2 TopCenter))
                               (fmul (readBack newHeight (rect_height (preview s))) 0.5) \<rparr>
         else r1)"
  using assms
  by (auto simp add: squareOnDrag_def edgeCenterBranch_def markDirtyOrThrow_def Let_def
        setter_preview setter_squares split: prod.splits)

lemma squareOnDrag_preview_corner:
  assumes "e \<notin> set [RightCenter, LeftCenter, TopCenter, BottomCenter]"
  shows "preview (fst (squareOnDrag e dragX dragY s)) =
     (let s2 = setSquareY e dragY (setSquareX e dragX s);
          (newWidth, newHeight, newCenterX, newCenterY) = cornerBranch e s2;
          r1 = (if newWidth \<ge> 32
                then (displayWidth_update newWidth (preview s))\<lparr> rect_x := newCenterX \<rparr>
                else preview s)
      in if newHeight \<ge> 32
         then (displayHeight_update newHeight r1)\<lparr> rect_y := newCenterY \<rparr>
         else r1)"
  using assms
  by (auto simp add: squareOnDrag_def markDirtyOrThrow_def Let_def
        setter_preview setter_squares split: prod.splits)

lemma synced_sq:
  assumes "squaresOnAnchors s"
  shows "sq_x (squares s e) = fst (anchor e (preview s))"
    and "sq_y (squares s e) = snd (anchor e (preview s))"
  using assms by (simp_all add: squaresOnAnchors_def)

lemma squaresOnAnchors_update [simp]: "squaresOnAnchors (updateSquaresPositions s)"
  by (simp add: squaresOnAnchors_def updateSquaresPositions_def setPosition_def)

lemma fst_markDirtyOrThrow [simp]: "fst (markDirtyOrThrow s) = s"
  by (simp add: markDirtyOrThrow_def)

lemma emitted_markDirtyOrThrow [simp]: "emitted (snd (markDirtyOrThrow s)) = []"
  by (simp add: markDirtyOrThrow_def)

lemma squareOnDrag_synced: "squaresOnAnchors (fst (squareOnDrag e dragX dragY s))"
  by (simp add: squareOnDrag_def Let_def split: prod.splits)

lemma squareOnDrag_emitted: "emitted (snd (squareOnDrag e dragX dragY s)) = []"
  by (simp add: squareOnDrag_def Let_def split: prod.splits)

lemma squareOnDrag_rest:
  "areaData (fst (squareOnDrag e dragX dragY s)) = areaData s"
  "selected (fst (squareOnDrag e dragX dragY s)) = selected s"
  "moved (fst (squareOnDrag e dragX dragY s)) = moved s"
  "squareSelected (fst (squareOnDrag e dragX dragY s)) = squareSelected s"
  "sceneIsGameScene (fst (squareOnDrag e dragX dragY s)) = sceneIsGameScene s"
  by (simp_all add: squareOnDrag_def edgeCenterBranch_def Let_def setter_rest split: prod.splits)

lemma squareOnDrag_visible:
  "rect_visible (preview (fst (squareOnDrag e dragX dragY s))) = rect_visible (preview s)"
  by (cases "e \<in> set [RightCenter, LeftCenter, TopCenter, BottomCenter]")
     (simp_all add: squareOnDrag_preview_edge squareOnDrag_preview_corner Let_def split: prod.splits)

lemma squareOnDrag_size:
  "rect_width (preview (fst (squareOnDrag e dragX dragY s))) = rect_width (preview s)"
  "rect_height (preview (fst (squareOnDrag e dragX dragY s))) = rect_height (preview s)"
  by (cases "e \<in> set [RightCenter, LeftCenter, TopCenter, BottomCenter]";
      simp add: squareOnDrag_preview_edge squareOnDrag_preview_corner Let_def split: prod.splits)+

lemma squareOnDrag_sq_visible:
  "sq_visible (squares (fst (squareOnDrag e dragX dragY s)) i) = sq_visible (squares s i)"
  by (simp add: squareOnDrag_def edgeCenterBranch_def Let_def setter_squares
        updateSquaresPositions_def setPosition_def split: prod.splits)

subsection \<open>Invariants of the reachable states\<close>

lemma constructor_synced: "squaresOnAnchors (constructor a g)"
  by (simp add: squaresOnAnchors_def constructor_def showSizeAlteringSquares_def
        newSizeAlteringSquare_def)

lemma step_synced:
  assumes "squaresOnAnchors s"
  shows "squaresOnAnchors (fst (step i s))"
proof (cases i)
  case (CallSelect v)
  then show ?thesis using assms
    by (simp add: select_def squaresOnAnchors_def showSizeAlteringSquares_def)
next
  case (CallSetVisible v)
  then show ?thesis using assms
    by (simp add: setVisible_def squaresOnAnchors_def showSizeAlteringSquares_def Let_def)
next
  case (CallUpdatePreview d)
  then show ?thesis by (simp add: updatePreview_def Let_def)
next
  case (CallSetProperty k v)
  then show ?thesis using assms by (simp add: setProperty_def squaresOnAnchors_def Let_def)
next
  case (CallUpdateData p)
  then show ?thesis by (simp add: updateData_def updatePreview_def Let_def)
next
  case (PreviewDrag isDown dragX dragY)
  then show ?thesis using assms
    by (simp add: previewDrag_def Let_def squaresOnAnchors_def updateSquaresPositions_def
          setPosition_def)
next
  case PreviewPointerUp
  then show ?thesis using assms
    by (simp add: previewPointerUp_def Let_def squaresOnAnchors_def
          updateAreaDataWithSquaresAdjustments_def)
next
  case (SquareDrag e dragX dragY)
  then show ?thesis by (simp add: squareOnDrag_synced)
next
  case (SquareReleased e)
  then show ?thesis using assms
    by (simp add: squareOnReleased_def Let_def squaresOnAnchors_def
          updateAreaDataWithSquaresAdjustments_def)
qed (use assms in \<open>simp_all add: delete_def previewPointerDown_def squareOnSelected_def squaresOnAnchors_def\<close>)

lemma reachable_synced: "reachable s \<Longrightarrow> squaresOnAnchors s"
  by (induction rule: reachable.induct) (simp_all add: constructor_synced step_synced)

lemma synced_flag [simp]:
  "squaresOnAnchors (s\<lparr> squareSelected := v \<rparr>) = squaresOnAnchors s"
  by (simp add: squaresOnAnchors_def)

subsection \<open>Sequences and gestures\<close>

lemma run_append:
  "run (xs @ ys) s = (let (s1, e1) = run xs s; (s2, e2) = run ys s1 in (s2, e1 @ e2))"
  by (induction xs arbitrary: s) (simp_all add: Let_def split: prod.splits)

lemma fst_run_append: "fst (run (xs @ ys) s) = fst (run ys (fst (run xs s)))"
  by (simp add: run_append Let_def split: prod.splits)

lemma fst_run_Cons: "fst (run (i # ins) s) = fst (run ins (fst (step i s)))"
  by (simp add: Let_def split: prod.splits)

lemma emitted_append [simp]: "emitted (xs @ ys) = emitted xs @ emitted ys"
  by (induction xs rule: emitted.induct) simp_all

lemma reachable_run: "reachable s \<Longrightarrow> reachable (fst (run ins s))"
proof (induction ins arbitrary: s)
  case Nil then show ?case by simp
next
  case (Cons i ins)
  from Cons.prems have "reachable (fst (step i s))" by (rule reachable.stepped)
  then have "reachable (fst (run ins (fst (step i s))))" by (rule Cons.IH)
  then show ?case by (simp only: fst_run_Cons)
qed

lemma squareDrags_emitted: "emitted (snd (run (squareDrags e frames) s)) = []"
proof (induction frames arbitrary: s)
  case Nil
  then show ?case by (simp add: squareDrags_def)
next
  case (Cons f frames)
  obtain dragX dragY where f: "f = (dragX, dragY)" by (cases f)
  have "run (squareDrags e (f # frames)) s =
      (fst (run (squareDrags e frames) (fst (squareOnDrag e dragX dragY s))),
       snd (squareOnDrag e dragX dragY s)
         @ snd (run (squareDrags e frames) (fst (squareOnDrag e dragX dragY s))))"
    by (simp add: squareDrags_def f Let_def split: prod.splits)
  then show ?case by (simp add: Cons.IH squareOnDrag_emitted)
qed

lemma squareDrags_single: "run (squareDrags e [(dragX, dragY)]) s = squareOnDrag e dragX dragY s"
  by (simp add: squareDrags_def Let_def split: prod.splits)

lemma resizeGesture_run:
  "fst (run (resizeGesture e frames) s) =
     updateAreaDataWithSquaresAdjustments
       ((fst (run (squareDrags e frames) (s\<lparr> squareSelected := True \<rparr>)))\<lparr> squareSelected := False \<rparr>)"
  "emitted (snd (run (resizeGesture e frames) s)) =
     [Update (geometryData (fst (run (resizeGesture e frames) s)))]"
proof -
  have split: "resizeGesture e frames = [SquareSelected e] @ squareDrags e frames @ [SquareReleased e]"
    by (simp add: resizeGesture_def squareDrags_def)
  show "fst (run (resizeGesture e frames) s) =
     updateAreaDataWithSquaresAdjustments
       ((fst (run (squareDrags e frames) (s\<lparr> squareSelected := True \<rparr>)))\<lparr> squareSelected := False \<rparr>)"
    unfolding split fst_run_append
    by (simp add: squareOnSelected_def squareOnReleased_def Let_def)
  then show "emitted (snd (run (resizeGesture e frames) s)) =
     [Update (geometryData (fst (run (resizeGesture e frames) s)))]"
    unfolding split run_append
    using squareDrags_emitted [of e frames "s\<lparr> squareSelected := True \<rparr>"]
    by (auto simp add: squareOnSelected_def squareOnReleased_def Let_def split: prod.splits)
qed

lemma committed_area:
  "areaData (updateAreaDataWithSquaresAdjustments s) =
     (areaData s)\<lparr> area_x := fsub (rect_x (preview s)) (fmul (displayWidth (preview s)) 0.5),
                  area_y := fsub (rect_y (preview s)) (fmul (displayHeight (preview s)) 0.5),
                  area_width := displayWidth (preview s), area_height := displayHeight (preview s) \<rparr>"
  "preview (updateAreaDataWithSquaresAdjustments s) = preview s"
  "squares (updateAreaDataWithSquaresAdjustments s) = squares s"
  by (simp_all add: updateAreaDataWithSquaresAdjustments_def)

lemma resizeGesture_one_frame:
  "preview (fst (run (resizeGesture e [(dragX, dragY)]) s))
     = preview (fst (squareOnDrag e dragX dragY (s\<lparr> squareSelected := True \<rparr>)))"
  "areaData (fst (run (resizeGesture e [(dragX, dragY)]) s)) =
     (areaData s)
       \<lparr> area_x := fsub (rect_x (preview (fst (run (resizeGesture e [(dragX, dragY)]) s))))
                      (fmul (displayWidth (preview (fst (run (resizeGesture e [(dragX, dragY)]) s)))) 0.5),
         area_y := fsub (rect_y (preview (fst (run (resizeGesture e [(dragX, dragY)]) s))))
                      (fmul (displayHeight (preview (fst (run (resizeGesture e [(dragX, dragY)]) s)))) 0.5),
         area_width := displayWidth (preview (fst (run (resizeGesture e [(dragX, dragY)]) s))),
         area_height := displayHeight (preview (fst (run (resizeGesture e [(dragX, dragY)]) s))) \<rparr>"
  by (simp_all add: resizeGesture_run committed_area squareDrags_single squareOnDrag_rest)

subsection \<open>Evaluation of the scenarios\<close>

text \<open>The roundings that occur in the scenarios below.\<close>

lemma rd_values:
  "rd (- (14073748835532801 / 281474976710656)) = - 50"
  "rd (- 50) = - 50"
  "rd (- (6473924464345089 / 140737488355328)) = - (6473924464345089 / 140737488355328)"
  "rd (- (51 / 2)) = - (51 / 2)"
  "rd (- (47 / 2)) = - (47 / 2)"
  "rd (- (6614661952700415 / 281474976710656)) = - (6614661952700415 / 281474976710656)"
  "rd (- (11 / 2)) = - (11 / 2)"
  "rd (- 1) = - 1"
  "rd 0 = 0"
  "rd (1 / 281474976710656) = 1 / 281474976710656"
  "rd (1 / 2) = 1 / 2"
  "rd (57 / 100) = 5134103575202365 / 9007199254740992"
  "rd (3 / 5) = 5404319552844595 / 9007199254740992"
  "rd (32 / 49) = 5882252574524729 / 9007199254740992"
  "rd (7 / 10) = 3152519739159347 / 4503599627370496"
  "rd (4 / 5) = 3602879701896397 / 4503599627370496"
  "rd (9 / 10) = 8106479329266893 / 9007199254740992"
  "rd 1 = 1"
  "rd (53 / 49) = 1217810103319573 / 1125899906842624"
  "rd (7459086882832385 / 6896136929411072) = 1217810103319573 / 1125899906842624"
  "rd (3 / 2) = 3 / 2"
  "rd (81 / 35) = 5211308140243003 / 2251799813685248"
  "rd (5 / 2) = 5 / 2"
  "rd (422212465065985 / 140737488355328) = 422212465065985 / 140737488355328"
  "rd 5 = 5"
  "rd 10 = 10"
  "rd (9007199254740991 / 562949953421312) = 9007199254740991 / 562949953421312"
  "rd (35 / 2) = 35 / 2"
  "rd 20 = 20"
  "rd (49 / 2) = 49 / 2"
  "rd 25 = 25"
  "rd (53 / 2) = 53 / 2"
  "rd (7459086882832385 / 281474976710656) = 7459086882832385 / 281474976710656"
  "rd (8022036836253695 / 281474976710656) = 8022036836253695 / 281474976710656"
  "rd (57 / 2) = 57 / 2"
  "rd 30 = 30"
  "rd (9007199254740991 / 281474976710656) = 9007199254740991 / 281474976710656"
  "rd (288230376151711721 / 9007199254740992) = 9007199254740991 / 281474976710656"
  "rd 32 = 32"
  "rd 35 = 35"
  "rd (4925812092436481 / 140737488355328) = 4925812092436481 / 140737488355328"
  "rd 40 = 40"
  "rd (81 / 2) = 81 / 2"
  "rd (5699868278390785 / 140737488355328) = 5699868278390785 / 140737488355328"
  "rd 45 = 45"
  "rd 49 = 49"
  "rd 50 = 50"
  "rd 53 = 53"
  "rd (59672695062659077 / 1125899906842624) = 7459086882832385 / 140737488355328"
  "rd (7459086882832385 / 140737488355328) = 7459086882832385 / 140737488355328"
  "rd 55 = 55"
  "rd (8022036836253695 / 140737488355328) = 8022036836253695 / 140737488355328"
  "rd (128352589380059125 / 2251799813685248) = 8022036836253695 / 140737488355328"
  "rd (16044073672507391 / 281474976710656) = 57"
  "rd 57 = 57"
  "rd (135107988821114875 / 2251799813685248) = 60"
  "rd 60 = 60"
  "rd 65 = 65"
  "rd (78812993478983675 / 1125899906842624) = 70"
  "rd 70 = 70"
  "rd 75 = 75"
  "rd 80 = 80"
  "rd (90071992547409925 / 1125899906842624) = 80"
  "rd 81 = 81"
  "rd (182395784908505105 / 2251799813685248) = 5699868278390785 / 70368744177664"
  "rd 90 = 90"
  "rd (202661983231672325 / 2251799813685248) = 90"
  "rd 100 = 100"
  "rd 110 = 110"
  "rd 120 = 120"
  "rd 130 = 130"
  "rd 150 = 150"
  by code_simp+

lemma squareOnDrag_squares:
  "sq_x (squares (fst (squareOnDrag e dragX dragY s)) i)
     = fst (anchor i (preview (fst (squareOnDrag e dragX dragY s))))"
  "sq_y (squares (fst (squareOnDrag e dragX dragY s)) i)
     = snd (anchor i (preview (fst (squareOnDrag e dragX dragY s))))"
  by (simp_all add: synced_sq [OF squareOnDrag_synced])

lemmas double_ops = fadd_def fsub_def fmul_def fdiv_def readBack_def displayWidth_def
  displayHeight_def displayWidth_update_def displayHeight_update_def

lemmas scenario_defs = resizeGesture_run committed_area squareDrags_single
  squareOnDrag_preview_corner squareOnDrag_preview_edge cornerBranch_def edgeCenterSize_def
  computedSize_def setter_squares setter_preview Let_def constructor_def
  showSizeAlteringSquares_def createPreview_def exampleArea_def edge_simps squareOnDrag_rest
  newSizeAlteringSquare_def getter_defs originX_def originY_def geometryData_def
  getAreaData_def select_def previewPointerDown_def previewDrag_def previewPointerUp_def
  updateAreaDataWithSquaresAdjustments_def markDirtyOrThrow_def setter_rest
  updateSquaresPositions_def setPosition_def squareOnDrag_squares

subsection \<open>Properties and updates from outside\<close>

text \<open>
  Claim C8. \<open>setProperty key v\<close> writes the one entry \<open>key\<close> of the stored properties,
  leaves everything else of the object as it is, and emits one \<open>Update\<close> event whose
  payload has the identifier and \<open>properties = {key: v}\<close>, and no other field.
\<close>

theorem setProperty_minimal_update:
  "snd (setProperty key v s) =
     [Emit (Update \<lparr> d_id = area_id (areaData s), d_name = None, d_x = None, d_y = None,
                     d_width = None, d_height = None, d_properties = Some [(key, v)] \<rparr>)]
   \<and> map_of (area_properties (areaData (fst (setProperty key v s))))
       = (map_of (area_properties (areaData s)))(key \<mapsto> v)
   \<and> fst (setProperty key v s)
       = s\<lparr> areaData := (areaData s)
            \<lparr> area_properties := area_properties (areaData (fst (setProperty key v s))) \<rparr> \<rparr>"
  by (simp add: setProperty_def getAreaData_def Let_def update_conv')

text \<open>
  The scenario: \<open>setProperty("color", "red")\<close> on the area \<open>a1\<close>.
\<close>

theorem setProperty_color_red:
  "snd (setProperty ''color'' (Prim ''red'') (constructor exampleArea True)) =
     [Emit (Update \<lparr> d_id = ''a1'', d_name = None, d_x = None, d_y = None,
                     d_width = None, d_height = None,
                     d_properties = Some [(''color'', Prim ''red'')] \<rparr>)]
   \<and> map_of (area_properties (areaData (fst (setProperty ''color'' (Prim ''red'')
                                                (constructor exampleArea True)))))
       = [''silent'' \<mapsto> Prim ''true'', ''color'' \<mapsto> Prim ''red'']"
  using setProperty_minimal_update [of "''color''" "Prim ''red''" "constructor exampleArea True"]
  by (simp add: constructor_def exampleArea_def showSizeAlteringSquares_def)

text \<open>
  Claim C10. \<open>updateData\<close> does to the object what \<open>updatePreview\<close> does with the
  given fields and the identifier (the stored one, unless the fields bring their own),
  and emits one \<open>Update\<close> event whose payload is that identifier with exactly the
  given fields; \<open>updatePreview\<close> on the same data emits nothing.
\<close>

theorem updateData_emits:
  "updateData p s =
     (fst (updatePreview (withId (area_id (areaData s)) p) s),
      [Emit (Update (withId (area_id (areaData s)) p))])
   \<and> withId (area_id (areaData s)) p =
       \<lparr> d_id = (case p_id p of None \<Rightarrow> area_id (areaData s) | Some j \<Rightarrow> j),
         d_name = p_name p, d_x = p_x p, d_y = p_y p, d_width = p_width p,
         d_height = p_height p, d_properties = p_properties p \<rparr>
   \<and> updatePreview (withId (area_id (areaData s)) p) s
       = (fst (updateData p s), [])"
  by (simp add: updateData_def updatePreview_def withId_def Let_def)

text \<open>An update of \<open>x\<close> alone, on the area of the scenarios.\<close>

theorem updateData_example:
  "updateData \<lparr> p_id = None, p_name = None, p_x = Some 10, p_y = None, p_width = None,
                p_height = None, p_properties = None \<rparr> (constructor exampleArea True)
   = (fst (updatePreview \<lparr> d_id = ''a1'', d_name = None, d_x = Some 10, d_y = None,
              d_width = None, d_height = None, d_properties = None \<rparr> (constructor exampleArea True)),
      [Emit (Update \<lparr> d_id = ''a1'', d_name = None, d_x = Some 10, d_y = None,
              d_width = None, d_height = None, d_properties = None \<rparr>)])"
  using updateData_emits [of "\<lparr> p_id = None, p_name = None, p_x = Some 10, p_y = None, p_width = None,
                p_height = None, p_properties = None \<rparr>" "constructor exampleArea True"]
  by (simp add: constructor_def exampleArea_def showSizeAlteringSquares_def)

subsection \<open>Moving the rectangle\<close>

lemma previewDrag_frame:
  assumes "selected s" and "\<not> squareSelected s"
  shows "selected (fst (previewDrag True dragX dragY s))"
    and "\<not> squareSelected (fst (previewDrag True dragX dragY s))"
    and "moved (fst (previewDrag True dragX dragY s))"
    and "preview (fst (previewDrag True dragX dragY s)) = (preview s)\<lparr> rect_x := dragX, rect_y := dragY \<rparr>"
    and "areaData (fst (previewDrag True dragX dragY s)) = areaData s"
    and "emitted (snd (previewDrag True dragX dragY s)) = []"
  using assms
  by (simp_all add: previewDrag_def Let_def setter_preview setter_rest)

lemma previewDrags_frames:
  assumes "selected s" and "\<not> squareSelected s" and "frames \<noteq> []"
  shows "selected (fst (run (previewDrags frames) s))
       \<and> \<not> squareSelected (fst (run (previewDrags frames) s))
       \<and> moved (fst (run (previewDrags frames) s))
       \<and> preview (fst (run (previewDrags frames) s))
           = (preview s)\<lparr> rect_x := fst (last frames), rect_y := snd (last frames) \<rparr>
       \<and> areaData (fst (run (previewDrags frames) s)) = areaData s
       \<and> emitted (snd (run (previewDrags frames) s)) = []"
  using assms
proof (induction frames arbitrary: s)
  case Nil
  then show ?case by simp
next
  case (Cons f frames)
  obtain dragX dragY where f: "f = (dragX, dragY)" by (cases f)
  let ?s1 = "fst (previewDrag True dragX dragY s)"
  note fr = previewDrag_frame [OF Cons.prems(1,2), of dragX dragY]
  have run: "run (previewDrags (f # frames)) s =
      (fst (run (previewDrags frames) ?s1),
       snd (previewDrag True dragX dragY s) @ snd (run (previewDrags frames) ?s1))"
    by (simp add: previewDrags_def f Let_def split: prod.splits)
  show ?case
  proof (cases "frames = []")
    case True
    then show ?thesis unfolding run using fr by (simp add: previewDrags_def f)
  next
    case False
    from Cons.IH [OF fr(1) fr(2) False] show ?thesis
      unfolding run using fr False by simp
  qed
qed

text \<open>
  Claim C6. The object is selected and no square is selected; the rectangle is dragged
  with the button held through at least one position. The drag events emit nothing,
  and the release then writes into the stored area the \<open>x\<close>, \<open>y\<close>, \<open>width\<close> and
  \<open>height\<close> computed from the last position of the center and the size of the
  rectangle, resets \<open>moved\<close>, and emits one \<open>Update\<close> event with the identifier and
  these four numbers and nothing else. In the scenario (press on the canvas, center
  dragged from \<open>(50, 50)\<close> to \<open>(80, 80)\<close>, release) the update carries
  \<open>x = 30\<close>, \<open>y = 30\<close>, \<open>width = 100\<close>, \<open>height = 100\<close>.
\<close>

theorem move_commits_geometry:
  assumes "selected s" and "\<not> squareSelected s" and "frames \<noteq> []"
  shows "previewPointerUp (fst (run (previewDrags frames) s)) =
           ((fst (run (previewDrags frames) s))
              \<lparr> moved := False,
                areaData := (areaData s)
                  \<lparr> area_x := fsub (fst (last frames)) (fmul (displayWidth (preview s)) 0.5),
                    area_y := fsub (snd (last frames)) (fmul (displayHeight (preview s)) 0.5),
                    area_width := displayWidth (preview s),
                    area_height := displayHeight (preview s) \<rparr> \<rparr>,
            [Emit (Update \<lparr> d_id = area_id (areaData s), d_name = None,
                            d_x = Some (fsub (fst (last frames)) (fmul (displayWidth (preview s)) 0.5)),
                            d_y = Some (fsub (snd (last frames)) (fmul (displayHeight (preview s)) 0.5)),
                            d_width = Some (displayWidth (preview s)),
                            d_height = Some (displayHeight (preview s)),
                            d_properties = None \<rparr>)])
       \<and> emitted (snd (run (previewDrags frames) s)) = []
       \<and> emitted (snd (run [CallSelect True, PreviewPointerDown True, PreviewDrag True 80 80,
                             PreviewPointerUp] (constructor exampleArea True)))
           = [Clicked,
              Update \<lparr> d_id = ''a1'', d_name = None, d_x = Some 30, d_y = Some 30,
                       d_width = Some 100, d_height = Some 100, d_properties = None \<rparr>]"
proof -
  note fr = previewDrags_frames [OF assms]
  have up: "previewPointerUp (fst (run (previewDrags frames) s)) =
           ((fst (run (previewDrags frames) s))
              \<lparr> moved := False,
                areaData := (areaData s)
                  \<lparr> area_x := fsub (fst (last frames)) (fmul (displayWidth (preview s)) 0.5),
                    area_y := fsub (snd (last frames)) (fmul (displayHeight (preview s)) 0.5),
                    area_width := displayWidth (preview s),
                    area_height := displayHeight (preview s) \<rparr> \<rparr>,
            [Emit (Update \<lparr> d_id = area_id (areaData s), d_name = None,
                            d_x = Some (fsub (fst (last frames)) (fmul (displayWidth (preview s)) 0.5)),
                            d_y = Some (fsub (snd (last frames)) (fmul (displayHeight (preview s)) 0.5)),
                            d_width = Some (displayWidth (preview s)),
                            d_height = Some (displayHeight (preview s)),
                            d_properties = None \<rparr>)])"
    using fr
    by (simp add: previewPointerUp_def Let_def updateAreaDataWithSquaresAdjustments_def
          geometryData_def getAreaData_def)
  have ex: "emitted (snd (run [CallSelect True, PreviewPointerDown True, PreviewDrag True 80 80,
                             PreviewPointerUp] (constructor exampleArea True)))
           = [Clicked,
              Update \<lparr> d_id = ''a1'', d_name = None, d_x = Some 30, d_y = Some 30,
                       d_width = Some 100, d_height = Some 100, d_properties = None \<rparr>]"
    by (simp add: scenario_defs double_ops rd_values)
  from up fr ex show ?thesis by simp
qed

text \<open>
  The same drag in two steps, on an object whose scene is not a \<open>GameScene\<close>: the
  drag events throw, after they have moved the rectangle, and the release commits.
\<close>

theorem move_example:
  "snd (previewPointerUp (fst (run (previewDrags [(60, 70), (80, 80)])
                                  (fst (select True (constructor exampleArea False)))))) =
     [Emit (Update \<lparr> d_id = ''a1'', d_name = None, d_x = Some 30, d_y = Some 30,
                     d_width = Some 100, d_height = Some 100, d_properties = None \<rparr>)]
   \<and> \<not> moved (fst (previewPointerUp (fst (run (previewDrags [(60, 70), (80, 80)])
                                  (fst (select True (constructor exampleArea False)))))))"
proof -
  let ?s = "fst (select True (constructor exampleArea False))"
  have h: "selected ?s" "\<not> squareSelected ?s" "[(60, 70), (80, 80)] \<noteq> ([] :: (rat \<times> rat) list)"
    by (simp_all add: select_def showSizeAlteringSquares_def constructor_def)
  have g: "displayWidth (preview ?s) = 100" "displayHeight (preview ?s) = 100"
          "area_id (areaData ?s) = ''a1''"
    by (simp_all add: scenario_defs double_ops rd_values)
  have n: "fsub 80 (fmul 100 (1 / 2)) = 30" by (simp add: double_ops rd_values)
  from move_commits_geometry [OF h] show ?thesis by (simp add: g n)
qed

subsection \<open>Resizing: an extent below the minimum\<close>

lemma computedSize_cases:
  "e \<in> set [RightCenter, LeftCenter, TopCenter, BottomCenter] \<Longrightarrow>
     computedSize e s = edgeCenterSize s"
  "e \<notin> set [RightCenter, LeftCenter, TopCenter, BottomCenter] \<Longrightarrow>
     computedSize e s = (fst (cornerBranch e s), fst (snd (cornerBranch e s)))"
  by (simp_all add: computedSize_def)

text \<open>
  When the width (the height) computed for a drag event is below 32, the rectangle
  and every square are, on that axis, where they were before the event.
\<close>

lemma squareOnDrag_rejected_x:
  assumes "squaresOnAnchors s"
      and "fst (computedSize e (setSquareY e dragY (setSquareX e dragX s))) < 32"
  shows "rect_x (preview (fst (squareOnDrag e dragX dragY s))) = rect_x (preview s)"
    and "displayWidth (preview (fst (squareOnDrag e dragX dragY s))) = displayWidth (preview s)"
    and "sq_x (squares (fst (squareOnDrag e dragX dragY s)) i) = sq_x (squares s i)"
proof -
  let ?r' = "preview (fst (squareOnDrag e dragX dragY s))"
  have "rect_x ?r' = rect_x (preview s) \<and> displayWidth ?r' = displayWidth (preview s)"
    using assms(2)
    by (cases "e \<in> set [RightCenter, LeftCenter, TopCenter, BottomCenter]")
       (auto simp add: squareOnDrag_preview_edge squareOnDrag_preview_corner computedSize_cases
          Let_def split: prod.splits)
  then show x: "rect_x ?r' = rect_x (preview s)" and w: "displayWidth ?r' = displayWidth (preview s)"
    by simp_all
  show "sq_x (squares (fst (squareOnDrag e dragX dragY s)) i) = sq_x (squares s i)"
    using anchor_cong(1) [OF x w]
    by (simp add: synced_sq [OF assms(1)] synced_sq [OF squareOnDrag_synced])
qed

lemma squareOnDrag_rejected_y:
  assumes "squaresOnAnchors s"
      and "snd (computedSize e (setSquareY e dragY (setSquareX e dragX s))) < 32"
  shows "rect_y (preview (fst (squareOnDrag e dragX dragY s))) = rect_y (preview s)"
    and "displayHeight (preview (fst (squareOnDrag e dragX dragY s))) = displayHeight (preview s)"
    and "sq_y (squares (fst (squareOnDrag e dragX dragY s)) i) = sq_y (squares s i)"
proof -
  let ?r' = "preview (fst (squareOnDrag e dragX dragY s))"
  have "rect_y ?r' = rect_y (preview s) \<and> displayHeight ?r' = displayHeight (preview s)"
    using assms(2)
    by (cases "e \<in> set [RightCenter, LeftCenter, TopCenter, BottomCenter]")
       (auto simp add: squareOnDrag_preview_edge squareOnDrag_preview_corner computedSize_cases
          Let_def split: prod.splits)
  then show y: "rect_y ?r' = rect_y (preview s)" and h: "displayHeight ?r' = displayHeight (preview s)"
    by simp_all
  show "sq_y (squares (fst (squareOnDrag e dragX dragY s)) i) = sq_y (squares s i)"
    using anchor_cong(2) [OF y h]
    by (simp add: synced_sq [OF assms(1)] synced_sq [OF squareOnDrag_synced])
qed

lemma squareOnDrag_rejected_both:
  assumes "fst (computedSize e (setSquareY e dragY (setSquareX e dragX s))) < 32"
      and "snd (computedSize e (setSquareY e dragY (setSquareX e dragX s))) < 32"
  shows "preview (fst (squareOnDrag e dragX dragY s)) = preview s"
  using assms
  by (cases "e \<in> set [RightCenter, LeftCenter, TopCenter, BottomCenter]")
     (auto simp add: squareOnDrag_preview_edge squareOnDrag_preview_corner computedSize_cases
        Let_def split: prod.splits)

text \<open>
  Claim C2. In a reachable state, a drag event of a square that computes a width below
  32 leaves the width and the horizontal center of the rectangle as they were, and the
  square has afterwards the abscissa it had before; the same holds for the height and
  the ordinate, each axis on its own test. A drag event emits no event; when both
  extents are below 32 the rectangle, the squares and the stored area are unchanged.
  On the area of the scenarios, dragging the square on the bottom right corner to
  \<open>(10, 10)\<close> and releasing it leaves the stored area as it was.
\<close>

theorem rejected_axis_snaps_back:
  assumes "reachable s"
  shows "(fst (computedSize e (setSquareY e dragY (setSquareX e dragX s))) < 32 \<longrightarrow>
            sq_x (squares (fst (squareOnDrag e dragX dragY s)) e) = sq_x (squares s e)
          \<and> displayWidth (preview (fst (squareOnDrag e dragX dragY s))) = displayWidth (preview s)
          \<and> rect_x (preview (fst (squareOnDrag e dragX dragY s))) = rect_x (preview s))
       \<and> (snd (computedSize e (setSquareY e dragY (setSquareX e dragX s))) < 32 \<longrightarrow>
            sq_y (squares (fst (squareOnDrag e dragX dragY s)) e) = sq_y (squares s e)
          \<and> displayHeight (preview (fst (squareOnDrag e dragX dragY s))) = displayHeight (preview s)
          \<and> rect_y (preview (fst (squareOnDrag e dragX dragY s))) = rect_y (preview s))
       \<and> emitted (snd (squareOnDrag e dragX dragY s)) = []
       \<and> (fst (computedSize e (setSquareY e dragY (setSquareX e dragX s))) < 32
          \<and> snd (computedSize e (setSquareY e dragY (setSquareX e dragX s))) < 32 \<longrightarrow>
            preview (fst (squareOnDrag e dragX dragY s)) = preview s
          \<and> squares (fst (squareOnDrag e dragX dragY s)) = squares s
          \<and> areaData (fst (squareOnDrag e dragX dragY s)) = areaData s)
       \<and> areaData (fst (run (resizeGesture BottomRight [(10, 10)]) (constructor exampleArea True)))
           = exampleArea"
proof -
  have sy: "squaresOnAnchors s" using assms by (rule reachable_synced)
  note rx = squareOnDrag_rejected_x [OF sy] and ry = squareOnDrag_rejected_y [OF sy]
  have both: "preview (fst (squareOnDrag e dragX dragY s)) = preview s
          \<and> squares (fst (squareOnDrag e dragX dragY s)) = squares s"
    if "fst (computedSize e (setSquareY e dragY (setSquareX e dragX s))) < 32"
       "snd (computedSize e (setSquareY e dragY (setSquareX e dragX s))) < 32"
  proof
    show "preview (fst (squareOnDrag e dragX dragY s)) = preview s"
      using that by (rule squareOnDrag_rejected_both)
    show "squares (fst (squareOnDrag e dragX dragY s)) = squares s"
    proof
      fix i
      show "squares (fst (squareOnDrag e dragX dragY s)) i = squares s i"
        using rx(3) [OF that(1), of i] ry(3) [OF that(2), of i]
          squareOnDrag_sq_visible [of e dragX dragY s i]
        by (intro SizeAlteringSquare.equality) simp_all
    qed
  qed
  have ex: "areaData (fst (run (resizeGesture BottomRight [(10, 10)]) (constructor exampleArea True)))
           = exampleArea"
    by (simp add: scenario_defs double_ops rd_values)
  show ?thesis
    using rx ry both ex by (simp add: squareOnDrag_emitted squareOnDrag_rest)
qed

text \<open>
  One axis accepted and the other rejected in the same event: the square on the bottom
  right corner of the area of the scenarios dragged to \<open>(150, 10)\<close>. The width becomes
  150, the height stays 100 and the square is back on the ordinate 100.
\<close>

theorem rejected_axis_example:
  "snd (computedSize BottomRight (setSquareY BottomRight 10 (setSquareX BottomRight 150
          (constructor exampleArea True)))) < 32
   \<and> sq_y (squares (fst (squareOnDrag BottomRight 150 10 (constructor exampleArea True))) BottomRight) = 100
   \<and> displayHeight (preview (fst (squareOnDrag BottomRight 150 10 (constructor exampleArea True)))) = 100
   \<and> displayWidth (preview (fst (squareOnDrag BottomRight 150 10 (constructor exampleArea True)))) = 150
   \<and> sq_x (squares (fst (squareOnDrag BottomRight 150 10 (constructor exampleArea True))) BottomRight) = 150"
proof -
  let ?s = "constructor exampleArea True"
  have r: "reachable ?s" by (rule reachable.created)
  have c: "snd (computedSize BottomRight (setSquareY BottomRight 10 (setSquareX BottomRight 150 ?s))) = 10"
    by (simp add: scenario_defs double_ops rd_values)
  have old: "sq_y (squares ?s BottomRight) = 100" "displayHeight (preview ?s) = 100"
    by (simp_all add: scenario_defs double_ops rd_values)
  have w: "displayWidth (preview (fst (squareOnDrag BottomRight 150 10 ?s))) = 150"
    by (simp add: scenario_defs double_ops rd_values)
  have x: "sq_x (squares (fst (squareOnDrag BottomRight 150 10 ?s)) BottomRight) = 150"
    by (simp add: scenario_defs double_ops rd_values)
  from rejected_axis_snaps_back [OF r, of BottomRight 10 150] show ?thesis
    by (simp add: c old w x)
qed

subsection \<open>Visibility of the squares\<close>

lemma select_handles:
  assumes "\<forall>e. sq_visible (squares s e) \<longrightarrow> selected s \<and> rect_visible (preview s)"
      and "\<forall>e e'. sq_visible (squares s e) = sq_visible (squares s e')"
  shows "(\<forall>e. sq_visible (squares (fst (select v s)) e)
               \<longrightarrow> selected (fst (select v s)) \<and> rect_visible (preview (fst (select v s))))
       \<and> (\<forall>e e'. sq_visible (squares (fst (select v s)) e) = sq_visible (squares (fst (select v s)) e'))"
  using assms by (auto simp add: select_def showSizeAlteringSquares_def)

lemma setVisible_handles:
  assumes "\<forall>e. sq_visible (squares s e) \<longrightarrow> selected s \<and> rect_visible (preview s)"
      and "\<forall>e e'. sq_visible (squares s e) = sq_visible (squares s e')"
  shows "(\<forall>e. sq_visible (squares (fst (setVisible v s)) e)
               \<longrightarrow> selected (fst (setVisible v s)) \<and> rect_visible (preview (fst (setVisible v s))))
       \<and> (\<forall>e e'. sq_visible (squares (fst (setVisible v s)) e) = sq_visible (squares (fst (setVisible v s)) e'))"
  using assms by (auto simp add: setVisible_def showSizeAlteringSquares_def Let_def)

lemma visibilityCalls_Cons:
  "fst (run (visibilityCalls (c # cs)) s)
     = fst (run (visibilityCalls cs) (fst (step (case_sum CallSelect CallSetVisible c) s)))"
  by (simp add: visibilityCalls_def Let_def split: prod.splits)

lemma visibilityCalls_append:
  "fst (run (visibilityCalls (pre @ post)) s)
     = fst (run (visibilityCalls post) (fst (run (visibilityCalls pre) s)))"
  by (simp add: visibilityCalls_def fst_run_append)

lemma visibilityCalls_handles:
  assumes "\<forall>e. sq_visible (squares s e) \<longrightarrow> selected s \<and> rect_visible (preview s)"
      and "\<forall>e e'. sq_visible (squares s e) = sq_visible (squares s e')"
  shows "(\<forall>e. sq_visible (squares (fst (run (visibilityCalls cs) s)) e)
               \<longrightarrow> selected (fst (run (visibilityCalls cs) s))
                    \<and> rect_visible (preview (fst (run (visibilityCalls cs) s))))
       \<and> (\<forall>e e'. sq_visible (squares (fst (run (visibilityCalls cs) s)) e)
                 = sq_visible (squares (fst (run (visibilityCalls cs) s)) e'))"
  using assms
proof (induction cs arbitrary: s)
  case Nil
  then show ?case by (simp add: visibilityCalls_def)
next
  case (Cons c cs)
  show ?case
  proof (cases c)
    case (Inl v)
    from select_handles [OF Cons.prems, of v] Cons.IH [of "fst (select v s)"]
    show ?thesis unfolding visibilityCalls_Cons by (simp add: Inl)
  next
    case (Inr v)
    from setVisible_handles [OF Cons.prems, of v] Cons.IH [of "fst (setVisible v s)"]
    show ?thesis unfolding visibilityCalls_Cons by (simp add: Inr)
  qed
qed

text \<open>
  The squares are visible exactly when the object is selected and the rectangle is
  visible: \<open>select\<close> keeps this, \<open>setVisible(false)\<close> brings it about, and
  \<open>setVisible(true)\<close> keeps it when the rectangle is already visible.
\<close>

lemma select_exact:
  assumes "\<forall>e. sq_visible (squares s e) = (selected s \<and> rect_visible (preview s))"
  shows "\<forall>e. sq_visible (squares (fst (select v s)) e)
              = (selected (fst (select v s)) \<and> rect_visible (preview (fst (select v s))))"
    and "rect_visible (preview (fst (select v s))) = rect_visible (preview s)"
  using assms by (auto simp add: select_def showSizeAlteringSquares_def)

lemma setVisible_False_exact:
  "\<forall>e. sq_visible (squares (fst (setVisible False s)) e)
        = (selected (fst (setVisible False s)) \<and> rect_visible (preview (fst (setVisible False s))))"
  by (simp add: setVisible_def showSizeAlteringSquares_def Let_def)

lemma setVisible_True_exact:
  assumes "\<forall>e. sq_visible (squares s e) = (selected s \<and> rect_visible (preview s))"
      and "rect_visible (preview s)"
  shows "\<forall>e. sq_visible (squares (fst (setVisible True s)) e)
              = (selected (fst (setVisible True s)) \<and> rect_visible (preview (fst (setVisible True s))))"
    and "rect_visible (preview (fst (setVisible True s)))"
  using assms by (simp_all add: setVisible_def Let_def)

lemma never_hidden_exact:
  assumes "\<forall>e. sq_visible (squares s e) = (selected s \<and> rect_visible (preview s))"
      and "rect_visible (preview s)" and "Inr False \<notin> set pre"
  shows "(\<forall>e. sq_visible (squares (fst (run (visibilityCalls pre) s)) e)
              = (selected (fst (run (visibilityCalls pre) s))
                 \<and> rect_visible (preview (fst (run (visibilityCalls pre) s)))))
       \<and> rect_visible (preview (fst (run (visibilityCalls pre) s)))"
  using assms
proof (induction pre arbitrary: s)
  case Nil
  then show ?case by (simp add: visibilityCalls_def)
next
  case (Cons c pre)
  from Cons.prems(3) have rest: "Inr False \<notin> set pre" by simp
  show ?case
  proof (cases c)
    case (Inl v)
    from select_exact [OF Cons.prems(1), of v] Cons.prems(2)
    have "\<forall>e. sq_visible (squares (fst (select v s)) e)
              = (selected (fst (select v s)) \<and> rect_visible (preview (fst (select v s))))"
         "rect_visible (preview (fst (select v s)))" by simp_all
    from Cons.IH [OF this rest] show ?thesis unfolding visibilityCalls_Cons by (simp add: Inl)
  next
    case (Inr v)
    with Cons.prems(3) have v: "v = True" by auto
    from Cons.IH [OF setVisible_True_exact [OF Cons.prems(1,2)] rest]
    show ?thesis unfolding visibilityCalls_Cons by (simp add: Inr v)
  qed
qed

lemma never_shown_exact:
  assumes "\<forall>e. sq_visible (squares s e) = (selected s \<and> rect_visible (preview s))"
      and "Inr True \<notin> set post"
  shows "\<forall>e. sq_visible (squares (fst (run (visibilityCalls post) s)) e)
              = (selected (fst (run (visibilityCalls post) s))
                 \<and> rect_visible (preview (fst (run (visibilityCalls post) s))))"
  using assms
proof (induction post arbitrary: s)
  case Nil
  then show ?case by (simp add: visibilityCalls_def)
next
  case (Cons c post)
  from Cons.prems(2) have rest: "Inr True \<notin> set post" by simp
  show ?case
  proof (cases c)
    case (Inl v)
    from Cons.IH [OF select_exact(1) [OF Cons.prems(1), of v] rest]
    show ?thesis unfolding visibilityCalls_Cons by (simp add: Inl)
  next
    case (Inr v)
    with Cons.prems(2) have v: "v = False" by auto
    from Cons.IH [OF setVisible_False_exact rest]
    show ?thesis unfolding visibilityCalls_Cons by (simp add: Inr v)
  qed
qed

lemma constructor_hidden: "\<not> sq_visible (squares (constructor a g) e)"
  by (simp add: constructor_def showSizeAlteringSquares_def createPreview_def)

lemma constructor_flags:
  "\<not> selected (constructor a g)" "rect_visible (preview (constructor a g))"
  by (simp_all add: constructor_def showSizeAlteringSquares_def createPreview_def)

text \<open>
  Claim C9, as the code has it. After any sequence of calls of \<open>select\<close> and
  \<open>setVisible\<close> on a new object, a square is visible only if the object is selected
  and the rectangle is visible, and the eight squares are visible or hidden together.
  As long as the rectangle is not made visible again after it has been hidden (no
  \<open>setVisible(true)\<close> after a \<open>setVisible(false)\<close>), a square is visible if and only
  if the object is selected and the rectangle is visible. Selecting an unselected
  object whose rectangle is visible shows the squares; selecting while the rectangle is
  hidden leaves them as they are; \<open>setVisible(false)\<close> hides them; the squares of a new
  object are hidden; \<open>select\<close> called twice with the same value does what one call does.
\<close>

theorem handles_follow_selection_and_visibility:
  "(sq_visible (squares (fst (run (visibilityCalls cs) (constructor a g))) e)
      \<longrightarrow> selected (fst (run (visibilityCalls cs) (constructor a g)))
          \<and> rect_visible (preview (fst (run (visibilityCalls cs) (constructor a g)))))
   \<and> sq_visible (squares (fst (run (visibilityCalls cs) (constructor a g))) e')
       = sq_visible (squares (fst (run (visibilityCalls cs) (constructor a g))) e)
   \<and> (Inr False \<notin> set pre \<and> Inr True \<notin> set post \<longrightarrow>
        sq_visible (squares (fst (run (visibilityCalls (pre @ post)) (constructor a g))) e)
          = (selected (fst (run (visibilityCalls (pre @ post)) (constructor a g)))
             \<and> rect_visible (preview (fst (run (visibilityCalls (pre @ post)) (constructor a g))))))
   \<and> (\<not> selected s \<and> rect_visible (preview s) \<longrightarrow>
        sq_visible (squares (fst (select True s)) e))
   \<and> (\<not> rect_visible (preview s) \<longrightarrow> squares (fst (select True s)) = squares s)
   \<and> \<not> sq_visible (squares (fst (setVisible False s)) e)
   \<and> \<not> sq_visible (squares (constructor a g) e)
   \<and> select v (fst (select v s)) = (fst (select v s), [])"
proof -
  have init: "\<forall>e. sq_visible (squares (constructor a g) e)
                 \<longrightarrow> selected (constructor a g) \<and> rect_visible (preview (constructor a g))"
             "\<forall>e e'. sq_visible (squares (constructor a g) e) = sq_visible (squares (constructor a g) e')"
    by (simp_all add: constructor_hidden)
  have exact0: "\<forall>e. sq_visible (squares (constructor a g) e)
                 = (selected (constructor a g) \<and> rect_visible (preview (constructor a g)))"
    by (simp add: constructor_hidden constructor_flags)
  have exact: "sq_visible (squares (fst (run (visibilityCalls (pre @ post)) (constructor a g))) e)
          = (selected (fst (run (visibilityCalls (pre @ post)) (constructor a g)))
             \<and> rect_visible (preview (fst (run (visibilityCalls (pre @ post)) (constructor a g)))))"
    if "Inr False \<notin> set pre" "Inr True \<notin> set post"
  proof -
    from never_hidden_exact [OF exact0 constructor_flags(2) that(1)]
    have "\<forall>e. sq_visible (squares (fst (run (visibilityCalls pre) (constructor a g))) e)
              = (selected (fst (run (visibilityCalls pre) (constructor a g)))
                 \<and> rect_visible (preview (fst (run (visibilityCalls pre) (constructor a g)))))"
      by simp
    from never_shown_exact [OF this that(2)] show ?thesis
      unfolding visibilityCalls_append by simp
  qed
  have idem: "select v (fst (select v s)) = (fst (select v s), [])"
    by (simp add: select_def showSizeAlteringSquares_def)
  have shown: "sq_visible (squares (fst (select True s)) e)"
    if "\<not> selected s" "rect_visible (preview s)"
    using that by (simp add: select_def showSizeAlteringSquares_def)
  have suppressed: "squares (fst (select True s)) = squares s" if "\<not> rect_visible (preview s)"
    using that by (simp add: select_def showSizeAlteringSquares_def)
  have hidden: "\<not> sq_visible (squares (fst (setVisible False s)) e)"
    by (simp add: setVisible_def showSizeAlteringSquares_def Let_def)
  from visibilityCalls_handles [OF init, of cs] constructor_hidden [of a g e] idem exact shown
    suppressed hidden
  show ?thesis by blast
qed

text \<open>A new object, shown (it is visible already) and selected: the squares are visible.\<close>

theorem handles_visible_when_selected:
  "sq_visible (squares (fst (run (visibilityCalls [Inr True, Inl True]) (constructor exampleArea True))) TopLeft)
   \<and> selected (fst (run (visibilityCalls [Inr True, Inl True]) (constructor exampleArea True)))
   \<and> rect_visible (preview (fst (run (visibilityCalls [Inr True, Inl True]) (constructor exampleArea True))))"
proof -
  have h: "Inr False \<notin> set [Inr True, Inl True :: bool + bool]"
          "Inr True \<notin> set ([] :: (bool + bool) list)" by simp_all
  have st: "selected (fst (run (visibilityCalls [Inr True, Inl True]) (constructor exampleArea True)))"
           "rect_visible (preview (fst (run (visibilityCalls [Inr True, Inl True]) (constructor exampleArea True))))"
    by (simp_all add: visibilityCalls_def select_def setVisible_def showSizeAlteringSquares_def
          constructor_def createPreview_def Let_def)
  from handles_follow_selection_and_visibility
         [where cs = "[Inr True, Inl True]" and pre = "[Inr True, Inl True]" and post = "[]"
            and a = exampleArea and g = True and e = TopLeft and e' = TopLeft
            and s = "constructor exampleArea True" and v = True]
    h st
  show ?thesis by simp
qed

text \<open>
  Claim C9 as stated fails: select the object, hide it and show it again. The object
  is selected and the rectangle is visible, and the squares are hidden, since
  \<open>setVisible(true)\<close> does not touch them.
\<close>

theorem handles_stay_hidden_when_shown_again:
  "\<not> (sq_visible (squares (fst (run (visibilityCalls [Inl True, Inr False, Inr True])
                                    (constructor exampleArea True))) TopLeft)
       = (selected (fst (run (visibilityCalls [Inl True, Inr False, Inr True])
                              (constructor exampleArea True)))
          \<and> rect_visible (preview (fst (run (visibilityCalls [Inl True, Inr False, Inr True])
                                          (constructor exampleArea True))))))"
  by (simp add: visibilityCalls_def select_def setVisible_def showSizeAlteringSquares_def
        constructor_def createPreview_def Let_def)

subsection \<open>Updates from outside\<close>


lemma mergeValue_cases:
  "mergeValue (Some (Obj o1)) (Obj o2) = Obj (mergeFields o1 o2)"
  "mergeValue (Some (Prim q)) (Obj o2) = Obj (mergeFields [] o2)"
  "mergeValue None (Obj o2) = Obj (mergeFields [] o2)"
  by simp_all





subsection \<open>Resizing: squares in the middle of an edge\<close>

text \<open>
  One drag event of a square in the middle of an edge, from a state in which the squares
  sit on their anchor points: both extents are measured between the edges, the dragged
  one taken at the pointer, and each axis whose extent is at least 32 is rewritten
  from its measure.
\<close>

lemma edge_frame:
  assumes "squaresOnAnchors s" and "e \<in> set [RightCenter, LeftCenter, TopCenter, BottomCenter]"
  shows "edgeCenterSize (setSquareY e dragY (setSquareX e dragX s)) =
           (fsub (if e = RightCenter then dragX else rightX (preview s))
                 (if e = LeftCenter then dragX else leftX (preview s)),
            fsub (if e = BottomCenter then dragY else bottomY (preview s))
                 (if e = TopCenter then dragY else topY (preview s)))"
    and "sq_x (squares (setSquareY e dragY (setSquareX e dragX s)) LeftCenter)
           = (if e = LeftCenter then dragX else leftX (preview s))"
    and "sq_y (squares (setSquareY e dragY (setSquareX e dragX s)) TopCenter)
           = (if e = TopCenter then dragY else topY (preview s))"
  using assms(2)
  by (auto simp add: edgeCenterSize_def setter_squares synced_sq [OF assms(1)])

lemma edge_frame_x:
  assumes "squaresOnAnchors s" and "e \<in> set [RightCenter, LeftCenter, TopCenter, BottomCenter]"
  shows "displayWidth (preview (fst (squareOnDrag e dragX dragY s))) =
           (if 32 \<le> fst (edgeCenterSize (setSquareY e dragY (setSquareX e dragX s)))
            then readBack (fst (edgeCenterSize (setSquareY e dragY (setSquareX e dragX s))))
                          (rect_width (preview s))
            else displayWidth (preview s))"
    and "rect_x (preview (fst (squareOnDrag e dragX dragY s))) =
           (if 32 \<le> fst (edgeCenterSize (setSquareY e dragY (setSquareX e dragX s)))
            then fadd (if e = LeftCenter then dragX else leftX (preview s))
                      (fmul (displayWidth (preview (fst (squareOnDrag e dragX dragY s)))) 0.5)
            else rect_x (preview s))"
  using assms(2)
  by (auto simp add: squareOnDrag_preview_edge setter_squares synced_sq [OF assms(1)] Let_def
        split: prod.splits)

lemma edge_frame_y:
  assumes "squaresOnAnchors s" and "e \<in> set [RightCenter, LeftCenter, TopCenter, BottomCenter]"
  shows "displayHeight (preview (fst (squareOnDrag e dragX dragY s))) =
           (if 32 \<le> snd (edgeCenterSize (setSquareY e dragY (setSquareX e dragX s)))
            then readBack (snd (edgeCenterSize (setSquareY e dragY (setSquareX e dragX s))))
                          (rect_height (preview s))
            else displayHeight (preview s))"
    and "rect_y (preview (fst (squareOnDrag e dragX dragY s))) =
           (if 32 \<le> snd (edgeCenterSize (setSquareY e dragY (setSquareX e dragX s)))
            then fadd (if e = TopCenter then dragY else topY (preview s))
                      (fmul (displayHeight (preview (fst (squareOnDrag e dragX dragY s)))) 0.5)
            else rect_y (preview s))"
  using assms(2)
  by (auto simp add: squareOnDrag_preview_edge setter_squares synced_sq [OF assms(1)] Let_def
        split: prod.splits)

end
